theory Spec2Isabelle
  imports Complex_Main "HOL-Library.Word" "HOL-Library.List_Lexorder"
begin

section \<open>Data model\<close>

text \<open>
  The dashboard of \<^verbatim>\<open>src/app.py\<close> reads a CSV file into a pandas DataFrame with the
  columns State, Type, Gender, Age_group (text), Year and Total (integers, which pandas
  stores as 64-bit signed integers). A DataFrame is modelled as the list of its rows, in
  index order; a column is the list of one field over the rows. Every cell holds a value
  of its column's type: tables with missing cells are outside the model, and so is the
  parsing of the CSV text.

  Python strings are sequences of Unicode code points, so a string is a list of code
  points (natural numbers). String comparison in Python is lexicographic on code points,
  which is the list order of \<^verbatim>\<open>HOL-Library.List_Lexorder\<close>.
\<close>

type_synonym codepoint = nat
type_synonym pystr = "codepoint list"

definition py_str :: "string \<Rightarrow> pystr" where
  "py_str s = map of_char s"

definition is_ascii :: "pystr \<Rightarrow> bool" where
  "is_ascii s = list_all (\<lambda>c. c < 128) s"

record row =
  State :: pystr
  Type :: pystr
  Gender :: pystr
  Age_group :: pystr
  Year :: int
  Total :: "64 word"

type_synonym dataframe = "row list"

section \<open>Text: \<^verbatim>\<open>str.title\<close>\<close>

text \<open>
  \<^verbatim>\<open>Series.str.title()\<close> applies Python's \<^verbatim>\<open>str.title\<close> to every cell. CPython computes
  it in one pass (\<^verbatim>\<open>do_title\<close>): a character that follows a cased character is replaced
  by its full lower-case mapping, any other character by its full title-case mapping, and
  the flag for the next character is whether the \<^emph>\<open>original\<close> character is cased.

  The three functions below are the entries of the Unicode character database that the
  development uses: the ASCII letters, and U+0130 (LATIN CAPITAL LETTER I WITH DOT ABOVE),
  a cased character whose lower-case mapping is the two code points U+0069 U+0307.
  Every other code point is taken as caseless and mapped to itself, which is what the
  database says of digits, punctuation, spaces and U+0307 (COMBINING DOT ABOVE), but not
  of the letters outside ASCII; general statements about casing are therefore made for
  ASCII text.
\<close>

definition is_upper_ascii :: "codepoint \<Rightarrow> bool" where
  "is_upper_ascii c \<longleftrightarrow> 65 \<le> c \<and> c \<le> 90"

definition is_lower_ascii :: "codepoint \<Rightarrow> bool" where
  "is_lower_ascii c \<longleftrightarrow> 97 \<le> c \<and> c \<le> 122"

definition is_cased :: "codepoint \<Rightarrow> bool" where
  "is_cased c \<longleftrightarrow> is_upper_ascii c \<or> is_lower_ascii c \<or> c = 304"

definition to_lower_full :: "codepoint \<Rightarrow> pystr" where
  "to_lower_full c =
     (if is_upper_ascii c then [c + 32]
      else if c = 304 then [105, 775]
      else [c])"

definition to_title_full :: "codepoint \<Rightarrow> pystr" where
  "to_title_full c = (if is_lower_ascii c then [c - 32] else [c])"

fun do_title :: "bool \<Rightarrow> pystr \<Rightarrow> pystr" where
  "do_title previous_is_cased [] = []"
| "do_title previous_is_cased (c # cs) =
     (if previous_is_cased then to_lower_full c else to_title_full c)
       @ do_title (is_cased c) cs"

definition str_title :: "pystr \<Rightarrow> pystr" where
  "str_title s = do_title False s"

text \<open>\<^verbatim>\<open>str.lower\<close> on the same fragment, used to say "differ only in case".\<close>

definition str_lower :: "pystr \<Rightarrow> pystr" where
  "str_lower s = concat (map to_lower_full s)"

section \<open>Boolean masks and row selection\<close>

text \<open>
  \<^verbatim>\<open>col.isin(values)\<close> and \<^verbatim>\<open>col.between(left, right)\<close> (inclusive on both sides) give
  one Boolean per row; \<^verbatim>\<open>&\<close> and \<^verbatim>\<open>~\<close> combine masks elementwise, and \<^verbatim>\<open>df[mask]\<close>
  keeps the rows whose mask entry is true, in their order.
\<close>

definition isin :: "'a list \<Rightarrow> 'a list \<Rightarrow> bool list" where
  "isin col vals = map (\<lambda>v. v \<in> set vals) col"

definition between :: "int list \<Rightarrow> int \<Rightarrow> int \<Rightarrow> bool list" where
  "between col left right = map (\<lambda>y. left \<le> y \<and> y \<le> right) col"

definition mask_and :: "bool list \<Rightarrow> bool list \<Rightarrow> bool list" where
  "mask_and a b = map2 (\<and>) a b"

definition mask_not :: "bool list \<Rightarrow> bool list" where
  "mask_not a = map Not a"

definition select_rows :: "'a list \<Rightarrow> bool list \<Rightarrow> 'a list" where
  "select_rows df keep = map fst (filter snd (zip df keep))"

section \<open>Loading: \<^verbatim>\<open>load_data\<close>\<close>

text \<open>
  \<^verbatim>\<open>load_data\<close> (lines 52 to 62), after \<^verbatim>\<open>pd.read_csv\<close>: the columns State, Type and
  Gender are title-cased one after the other, then the rows whose State is one of
  \<^verbatim>\<open>states_to_remove\<close> are dropped. Nothing strips whitespace.
\<close>

definition states_to_remove :: "pystr list" where
  "states_to_remove =
     [py_str ''Total (All India)'', py_str ''Total (States)'', py_str ''Total (Uts)'']"

definition load_data :: "dataframe \<Rightarrow> dataframe" where
  "load_data df0 =
     (let df1 = map (\<lambda>r. r\<lparr>State := str_title (State r)\<rparr>) df0;
          df2 = map (\<lambda>r. r\<lparr>Type := str_title (Type r)\<rparr>) df1;
          df3 = map (\<lambda>r. r\<lparr>Gender := str_title (Gender r)\<rparr>) df2
      in select_rows df3 (mask_not (isin (map State df3) states_to_remove)))"

section \<open>Filtering: \<^verbatim>\<open>filtered_df\<close>\<close>

text \<open>
  The sidebar widgets give the selected states, the year range (a pair), the selected
  types, genders and age groups; lines 114 to 120 combine five masks with \<^verbatim>\<open>&\<close>.
\<close>

record filter_spec =
  selected_states :: "pystr list"
  selected_years :: "int \<times> int"
  selected_type :: "pystr list"
  selected_gender :: "pystr list"
  selected_age_group :: "pystr list"

text \<open>
  The widgets of lines 82 to 111 bound what a filter can be. Each multiselect offers the
  values of its column in the loaded table and returns distinct values among them; the
  slider runs from the least to the greatest Year of the table and returns a pair inside
  that range, lower end first. A table without rows has no least Year, and the script
  stops at the slider.
\<close>

definition widget_state :: "dataframe \<Rightarrow> filter_spec \<Rightarrow> bool" where
  "widget_state df sp =
     (case df of
        [] \<Rightarrow> False
      | r # rs \<Rightarrow>
          distinct (selected_states sp)
          \<and> list_all (\<lambda>v. v \<in> set (map State df)) (selected_states sp)
          \<and> fold min (map Year rs) (Year r) \<le> fst (selected_years sp)
          \<and> fst (selected_years sp) \<le> snd (selected_years sp)
          \<and> snd (selected_years sp) \<le> fold max (map Year rs) (Year r)
          \<and> distinct (selected_type sp)
          \<and> list_all (\<lambda>v. v \<in> set (map Type df)) (selected_type sp)
          \<and> distinct (selected_gender sp)
          \<and> list_all (\<lambda>v. v \<in> set (map Gender df)) (selected_gender sp)
          \<and> distinct (selected_age_group sp)
          \<and> list_all (\<lambda>v. v \<in> set (map Age_group df)) (selected_age_group sp))"

definition filtered_df :: "filter_spec \<Rightarrow> dataframe \<Rightarrow> dataframe" where
  "filtered_df sp df =
     select_rows df
       (mask_and (isin (map State df) (selected_states sp))
       (mask_and (between (map Year df) (fst (selected_years sp)) (snd (selected_years sp)))
       (mask_and (isin (map Type df) (selected_type sp))
       (mask_and (isin (map Gender df) (selected_gender sp))
                 (isin (map Age_group df) (selected_age_group sp))))))"

section \<open>Aggregates and key statistics\<close>

text \<open>
  \<^verbatim>\<open>df.groupby(key)['Total']\<close> groups the Total column by the distinct values of the
  key column, in ascending key order (pandas sorts group keys by default). \<^verbatim>\<open>.sum()\<close>
  adds 64-bit integers, which wrap around silently; \<^verbatim>\<open>.mean()\<close> of an integer column
  adds the values as floating-point numbers and divides by their count, and is NaN for
  an empty column. Floating-point results are modelled as exact rationals together with
  NaN and the two infinities: rounding is not modelled.
\<close>

datatype error = ValueError

datatype pyfloat = Num rat | NaN | PosInf | NegInf

fun the_num :: "pyfloat \<Rightarrow> rat" where
  "the_num (Num x) = x"
| "the_num _ = 0"

definition groupby_keys :: "(row \<Rightarrow> 'k::linorder) \<Rightarrow> dataframe \<Rightarrow> 'k list" where
  "groupby_keys key df = sort (remdups (map key df))"

definition group_totals :: "(row \<Rightarrow> 'k) \<Rightarrow> dataframe \<Rightarrow> 'k \<Rightarrow> 64 word list" where
  "group_totals key df k = map Total (filter (\<lambda>r. key r = k) df)"

definition groupby_sum :: "(row \<Rightarrow> 'k::linorder) \<Rightarrow> dataframe \<Rightarrow> ('k \<times> 64 word) list" where
  "groupby_sum key df =
     map (\<lambda>k. (k, sum_list (group_totals key df k))) (groupby_keys key df)"

definition series_mean_int :: "64 word list \<Rightarrow> pyfloat" where
  "series_mean_int xs =
     (if xs = [] then NaN
      else Num (of_int (sum_list (map sint xs)) / of_nat (length xs)))"

definition groupby_mean :: "(row \<Rightarrow> 'k::linorder) \<Rightarrow> dataframe \<Rightarrow> ('k \<times> pyfloat) list" where
  "groupby_mean key df =
     map (\<lambda>k. (k, series_mean_int (group_totals key df k))) (groupby_keys key df)"

text \<open>
  \<^verbatim>\<open>.mean()\<close> of a floating-point column skips NaN entries; what is left gives NaN when
  it is empty or holds infinities of both signs, an infinity when it holds one sign, and
  the arithmetic mean otherwise.
\<close>

definition series_mean_float :: "pyfloat list \<Rightarrow> pyfloat" where
  "series_mean_float fs =
     (let vs = filter (\<lambda>f. f \<noteq> NaN) fs
      in if vs = [] then NaN
         else if PosInf \<in> set vs \<and> NegInf \<in> set vs then NaN
         else if PosInf \<in> set vs then PosInf
         else if NegInf \<in> set vs then NegInf
         else Num (sum_list (map the_num vs) / of_nat (length vs)))"

text \<open>
  \<^verbatim>\<open>Series.idxmax()\<close> raises ValueError on an empty series and otherwise returns the
  index label of the first occurrence of the largest value (a later entry replaces the
  best one only when it is strictly larger, as signed 64-bit integers).
\<close>

fun first_max :: "'k \<times> 64 word \<Rightarrow> ('k \<times> 64 word) list \<Rightarrow> 'k \<times> 64 word" where
  "first_max best [] = best"
| "first_max best (x # xs) =
     first_max (if sint (snd best) < sint (snd x) then x else best) xs"

definition idxmax :: "('k \<times> 64 word) list \<Rightarrow> error + 'k" where
  "idxmax s = (case s of [] \<Rightarrow> Inl ValueError | x # xs \<Rightarrow> Inr (fst (first_max x xs)))"

text \<open>
  Division of two 64-bit integer scalars (numpy true division): a zero divisor gives NaN
  for a zero dividend and a signed infinity otherwise, with a warning and no exception.
\<close>

definition true_divide :: "64 word \<Rightarrow> 64 word \<Rightarrow> pyfloat" where
  "true_divide a b =
     (if b = 0 then (if a = 0 then NaN else if 0 < sint a then PosInf else NegInf)
      else Num (of_int (sint a) / of_int (sint b)))"

fun times_100 :: "pyfloat \<Rightarrow> pyfloat" where
  "times_100 (Num x) = Num (x * 100)"
| "times_100 f = f"

text \<open>The four key statistics, lines 150 to 157 (the values before formatting).\<close>

definition total_cases :: "dataframe \<Rightarrow> 64 word" where
  "total_cases df = sum_list (map Total df)"

definition avg_annual_cases :: "dataframe \<Rightarrow> pyfloat" where
  "avg_annual_cases df = series_mean_float (map snd (groupby_mean Year df))"

definition most_affected_state :: "dataframe \<Rightarrow> error + pystr" where
  "most_affected_state df = idxmax (groupby_sum State df)"

definition gender_ratio :: "dataframe \<Rightarrow> pyfloat" where
  "gender_ratio df =
     times_100
       (true_divide
          (sum_list (map Total (select_rows df (map (\<lambda>g. g = py_str ''Male'') (map Gender df)))))
          (sum_list (map Total df)))"

text \<open>
  The statistic that the specification describes under "Avg Annual Cases": the Total
  summed by Year, then the mean of those per-year sums.
\<close>

definition spec_avg_annual_cases :: "dataframe \<Rightarrow> pyfloat" where
  "spec_avg_annual_cases df = series_mean_int (map snd (groupby_sum Year df))"

text \<open>The specification's text normalisation: trim surrounding whitespace, then title-case.\<close>

definition is_space :: "codepoint \<Rightarrow> bool" where
  "is_space c \<longleftrightarrow> (9 \<le> c \<and> c \<le> 13) \<or> (28 \<le> c \<and> c \<le> 32)"

definition str_strip :: "pystr \<Rightarrow> pystr" where
  "str_strip s = rev (dropWhile is_space (rev (dropWhile is_space s)))"

definition spec_normalize_text :: "pystr \<Rightarrow> pystr" where
  "spec_normalize_text s = str_title (str_strip s)"

section \<open>Views\<close>

text \<open>The yearly trend, line 167.\<close>

definition yearly_data :: "dataframe \<Rightarrow> (int \<times> 64 word) list" where
  "yearly_data df = groupby_sum Year df"

text \<open>
  The map view, lines 231 to 242. \<^verbatim>\<open>Series.replace(dict)\<close> goes through the items of
  the dictionary in order and writes the item's value wherever the \<^emph>\<open>original\<close> column
  equals the item's key.
\<close>

definition state_name_mapping :: "(pystr \<times> pystr) list" where
  "state_name_mapping =
     [(py_str ''Odisha'', py_str ''Orissa''),
      (py_str ''Jammu & Kashmir'', py_str ''Jammu and Kashmir''),
      (py_str ''A & N Islands'', py_str ''Andaman and Nicobar''),
      (py_str ''D & N Haveli'', py_str ''Dadra and Nagar Haveli''),
      (py_str ''Daman & Diu'', py_str ''Daman and Diu''),
      (py_str ''Delhi (Ut)'', py_str ''Delhi''),
      (py_str ''Uttarakhand'', py_str ''Uttaranchal'')]"

definition replace_values :: "('a \<times> 'a) list \<Rightarrow> 'a list \<Rightarrow> 'a list" where
  "replace_values d col =
     fold (\<lambda>(k, v) acc. map2 (\<lambda>orig cur. if orig = k then v else cur) col acc) d col"

definition map_data :: "dataframe \<Rightarrow> (pystr \<times> 64 word) list" where
  "map_data df =
     (let g = groupby_sum State df
      in zip (replace_values state_name_mapping (map fst g)) (map snd g))"

section \<open>A run of the script\<close>

text \<open>
  After filtering, the script renders its outputs one after the other: the four key
  statistics of lines 150 to 157, then the charts, of which the yearly trend (line 167)
  and the state map (lines 231 to 242) are modelled. An exception ends the run: what was
  rendered before it stays on the page and nothing after it is computed. A run is
  therefore the list of the outputs rendered, in order, and the exception that ended it,
  if any. Of the modelled outputs only the most-affected-state lookup can raise.
\<close>

datatype rendering =
    Total_Cases "64 word"
  | Avg_Annual_Cases pyfloat
  | Most_Affected_State pystr
  | Gender_Ratio pyfloat
  | Yearly_Trend "(int \<times> 64 word) list"
  | State_Heatmap "(pystr \<times> 64 word) list"

definition dashboard_run :: "dataframe \<Rightarrow> rendering list \<times> error option" where
  "dashboard_run fdf =
     (let shown = [Total_Cases (total_cases fdf), Avg_Annual_Cases (avg_annual_cases fdf)]
      in case most_affected_state fdf of
           Inl e \<Rightarrow> (shown, Some e)
         | Inr s \<Rightarrow>
             (shown @
                [Most_Affected_State s, Gender_Ratio (gender_ratio fdf),
                 Yearly_Trend (yearly_data fdf), State_Heatmap (map_data fdf)],
              None))"

section \<open>Example tables\<close>

definition mk_row :: "string \<Rightarrow> string \<Rightarrow> string \<Rightarrow> string \<Rightarrow> int \<Rightarrow> 64 word \<Rightarrow> row" where
  "mk_row s t g a y n =
     \<lparr>State = py_str s, Type = py_str t, Gender = py_str g, Age_group = py_str a,
      Year = y, Total = n\<rparr>"

definition ex_years :: dataframe where
  "ex_years =
     [mk_row ''Kerala'' ''Causes'' ''Male'' ''15-29'' 2019 10,
      mk_row ''Assam'' ''Causes'' ''Female'' ''15-29'' 2019 20,
      mk_row ''Kerala'' ''Causes'' ''Male'' ''30-44'' 2020 30]"

definition ex_spec_all :: filter_spec where
  "ex_spec_all =
     \<lparr>selected_states = [py_str ''Kerala'', py_str ''Assam''],
      selected_years = (2019, 2020),
      selected_type = [py_str ''Causes''],
      selected_gender = [py_str ''Male'', py_str ''Female''],
      selected_age_group = [py_str ''15-29'', py_str ''30-44'']\<rparr>"

definition ex_spec_kerala_female :: filter_spec where
  "ex_spec_kerala_female =
     \<lparr>selected_states = [py_str ''Kerala''],
      selected_years = (2019, 2019),
      selected_type = [py_str ''Causes''],
      selected_gender = [py_str ''Female''],
      selected_age_group = [py_str ''15-29'', py_str ''30-44'']\<rparr>"

definition ex_spec_no_gender :: filter_spec where
  "ex_spec_no_gender = ex_spec_all\<lparr>selected_gender := []\<rparr>"

definition ex_raw :: dataframe where
  "ex_raw =
     [mk_row ''kerala'' ''causes'' ''male'' ''15-29'' 2019 10,
      mk_row ''Total (UTs)'' ''causes'' ''male'' ''15-29'' 2019 9999,
      mk_row ''KERALA'' ''Causes'' ''FEMALE'' ''15-29'' 2019 7]"

definition ex_padded :: dataframe where
  "ex_padded =
     [mk_row ''Kerala'' ''Causes'' '' male'' ''15-29'' 2019 10,
      mk_row ''Kerala'' ''Causes'' ''male'' ''15-29'' 2019 5]"

definition ex_dotted :: dataframe where
  "ex_dotted =
     [\<lparr>State = [97, 304, 98], Type = py_str ''Causes'', Gender = py_str ''Male'',
       Age_group = py_str ''15-29'', Year = 2019, Total = 10\<rparr>]"

definition ex_tie :: dataframe where
  "ex_tie =
     [mk_row ''Kerala'' ''Causes'' ''Male'' ''15-29'' 2019 6,
      mk_row ''Bihar'' ''Causes'' ''Male'' ''15-29'' 2019 10,
      mk_row ''Assam'' ''Causes'' ''Female'' ''15-29'' 2019 3,
      mk_row ''Kerala'' ''Causes'' ''Female'' ''15-29'' 2020 4]"


definition ex_geo :: dataframe where
  "ex_geo =
     [mk_row ''Odisha'' ''Causes'' ''Male'' ''15-29'' 2019 6,
      mk_row ''Kerala'' ''Causes'' ''Male'' ''15-29'' 2019 3,
      mk_row ''Uttarakhand'' ''Causes'' ''Female'' ''15-29'' 2019 10,
      mk_row ''Odisha'' ''Causes'' ''Female'' ''15-29'' 2020 4]"

definition ex_ages :: dataframe where
  "ex_ages =
     [mk_row ''kerala'' ''causes'' ''male'' ''adult'' 2019 10,
      mk_row ''total (states)'' ''causes'' ''male'' ''adult'' 2019 9999,
      mk_row ''assam'' ''causes'' ''male'' ''Adult'' 2018 7]"

section \<open>Masks and selection are filters\<close>

lemma select_rows_map: "select_rows df (map P df) = filter P df"
  by (induction df) (simp_all add: select_rows_def)

lemma isin_map: "isin (map f df) vs = map (\<lambda>r. f r \<in> set vs) df"
  by (simp add: isin_def)

lemma between_map: "between (map f df) lo hi = map (\<lambda>r. lo \<le> f r \<and> f r \<le> hi) df"
  by (simp add: between_def)

lemma mask_and_map: "mask_and (map P df) (map Q df) = map (\<lambda>r. P r \<and> Q r) df"
  by (induction df) (simp_all add: mask_and_def)

lemma mask_not_map: "mask_not (map P df) = map (\<lambda>r. \<not> P r) df"
  by (simp add: mask_not_def)

lemma load_data_eq:
  "load_data df =
     map (\<lambda>r. r\<lparr>State := str_title (State r), Type := str_title (Type r),
                Gender := str_title (Gender r)\<rparr>)
       (filter (\<lambda>r. str_title (State r) \<notin> set states_to_remove) df)"
  by (simp add: load_data_def Let_def isin_map mask_not_map select_rows_map filter_map o_def)

section \<open>Grouped sums partition the column\<close>

lemma sum_list_indicator_absent:
  fixes v :: "'b::comm_monoid_add"
  shows "a \<notin> set ks \<Longrightarrow> sum_list (map (\<lambda>k. if a = k then v else 0) ks) = 0"
  by (induction ks) auto

lemma sum_list_indicator_present:
  fixes v :: "'b::comm_monoid_add"
  shows "distinct ks \<Longrightarrow> a \<in> set ks \<Longrightarrow> sum_list (map (\<lambda>k. if a = k then v else 0) ks) = v"
  by (induction ks) (auto simp add: sum_list_indicator_absent)

lemma group_sum_partition:
  fixes f :: "'a \<Rightarrow> 'b::comm_monoid_add"
  shows "distinct ks \<Longrightarrow> key ` set xs \<subseteq> set ks \<Longrightarrow>
     sum_list (map (\<lambda>k. sum_list (map f (filter (\<lambda>r. key r = k) xs))) ks) = sum_list (map f xs)"
proof (induction xs)
  case Nil
  then show ?case by simp
next
  case (Cons x xs)
  have k: "key x \<in> set ks" using Cons.prems by simp
  have "sum_list (map (\<lambda>k. sum_list (map f (filter (\<lambda>r. key r = k) (x # xs)))) ks)
      = sum_list (map (\<lambda>k. (if key x = k then f x else 0) + sum_list (map f (filter (\<lambda>r. key r = k) xs))) ks)"
    by (rule arg_cong [where f = sum_list], rule map_cong) simp_all
  also have "\<dots> = sum_list (map (\<lambda>k. if key x = k then f x else 0) ks)
                  + sum_list (map (\<lambda>k. sum_list (map f (filter (\<lambda>r. key r = k) xs))) ks)"
    by (simp add: sum_list_addf)
  also have "sum_list (map (\<lambda>k. if key x = k then f x else 0) ks) = f x"
    using k Cons.prems(1) by (rule sum_list_indicator_present [rotated])
  finally show ?case using Cons by simp
qed

lemma groupby_keys_props:
  "sorted (groupby_keys key df)" "distinct (groupby_keys key df)"
  "set (groupby_keys key df) = key ` set df"
  by (simp_all add: groupby_keys_def)

lemma groupby_sum_keys: "map fst (groupby_sum key df) = groupby_keys key df"
  by (simp add: groupby_sum_def o_def)

lemma groupby_sum_mem:
  "(k, v) \<in> set (groupby_sum key df) \<longleftrightarrow> k \<in> key ` set df \<and> v = sum_list (group_totals key df k)"
  by (auto simp add: groupby_sum_def groupby_keys_props)

section \<open>Title-casing of ASCII text\<close>

lemma is_ascii_Cons [simp]: "is_ascii (c # cs) \<longleftrightarrow> c < 128 \<and> is_ascii cs"
  by (simp add: is_ascii_def)

lemma is_ascii_Nil [simp]: "is_ascii []"
  by (simp add: is_ascii_def)

lemma ascii_lower:
  assumes "c < 128"
  obtains l where "to_lower_full c = [l]" "l < 128" "is_cased l = is_cased c"
    "to_lower_full l = [l]"
proof (cases "is_upper_ascii c")
  case True
  then have "to_lower_full c = [c + 32]" "c + 32 < 128" "is_cased (c + 32) = is_cased c"
    "to_lower_full (c + 32) = [c + 32]"
    by (simp_all add: to_lower_full_def is_cased_def is_upper_ascii_def is_lower_ascii_def)
  then show ?thesis by (rule that)
next
  case False
  with assms have "to_lower_full c = [c]" by (simp add: to_lower_full_def)
  with assms show ?thesis by (auto intro: that)
qed

lemma ascii_title:
  assumes "c < 128"
  obtains t where "to_title_full c = [t]" "t < 128" "is_cased t = is_cased c"
    "to_title_full t = [t]"
proof (cases "is_lower_ascii c")
  case True
  then have "to_title_full c = [c - 32]" "c - 32 < 128" "is_cased (c - 32) = is_cased c"
    "to_title_full (c - 32) = [c - 32]"
    by (auto simp add: to_title_full_def is_cased_def is_upper_ascii_def is_lower_ascii_def)
  then show ?thesis by (rule that)
next
  case False
  then have "to_title_full c = [c]" by (simp add: to_title_full_def)
  with assms show ?thesis by (auto intro: that)
qed

lemma do_title_idem:
  "is_ascii s \<Longrightarrow> do_title p (do_title p s) = do_title p s"
proof (induction s arbitrary: p)
  case Nil
  then show ?case by simp
next
  case (Cons c cs)
  then have c: "c < 128" and cs: "is_ascii cs" by simp_all
  note IH = Cons.IH [OF cs, of "is_cased c"]
  show ?case
  proof (cases p)
    case True
    from c obtain l where "to_lower_full c = [l]" "is_cased l = is_cased c" "to_lower_full l = [l]"
      by (rule ascii_lower)
    with True IH show ?thesis by simp
  next
    case False
    from c obtain t where "to_title_full c = [t]" "is_cased t = is_cased c" "to_title_full t = [t]"
      by (rule ascii_title)
    with False IH show ?thesis by simp
  qed
qed

lemma str_title_idem: "is_ascii s \<Longrightarrow> str_title (str_title s) = str_title s"
  by (simp add: str_title_def do_title_idem)

lemma to_lower_full_not_Nil: "to_lower_full c \<noteq> []"
  by (simp add: to_lower_full_def)

lemma str_lower_Nil_iff: "str_lower y = [] \<longleftrightarrow> y = []"
  by (cases y) (simp_all add: str_lower_def to_lower_full_not_Nil)

lemma str_lower_Cons: "str_lower (c # cs) = to_lower_full c @ str_lower cs"
  by (simp add: str_lower_def)

lemma lower_eq_cased:
  assumes "c < 128" "d < 128" "to_lower_full c = to_lower_full d"
  shows "is_cased c = is_cased d \<and> to_title_full c = to_title_full d"
  using assms
  unfolding to_lower_full_def to_title_full_def is_cased_def is_upper_ascii_def is_lower_ascii_def
  by (auto split: if_splits)

lemma do_title_case_insensitive:
  "is_ascii x \<Longrightarrow> is_ascii y \<Longrightarrow> str_lower x = str_lower y \<Longrightarrow> do_title p x = do_title p y"
proof (induction x arbitrary: y p)
  case Nil
  then have "y = []" using str_lower_Nil_iff [of y] by (simp add: str_lower_def)
  then show ?case by simp
next
  case (Cons c cs)
  have "str_lower y \<noteq> []"
    using Cons.prems(3) str_lower_Nil_iff [of "c # cs"] by simp
  then obtain d ds where y: "y = d # ds"
    using str_lower_Nil_iff [of y] by (cases y) simp_all
  from Cons.prems y have c: "c < 128" and d: "d < 128" and cs: "is_ascii cs" and ds: "is_ascii ds"
    by simp_all
  obtain l where l: "to_lower_full c = [l]" using c by (rule ascii_lower)
  obtain m where m: "to_lower_full d = [m]" using d by (rule ascii_lower)
  from Cons.prems(3) y l m have hd: "to_lower_full c = to_lower_full d" and tl: "str_lower cs = str_lower ds"
    by (simp_all add: str_lower_Cons)
  from lower_eq_cased [OF c d hd] have cased: "is_cased c = is_cased d" and tt: "to_title_full c = to_title_full d"
    by simp_all
  show ?case using Cons.IH [OF cs ds tl, of "is_cased c"] hd tt cased y by simp
qed

lemma do_title_nth:
  "is_ascii s \<Longrightarrow> length (do_title p s) = length s
    \<and> (\<forall>i < length s. [do_title p s ! i] =
          (if (if i = 0 then p else is_cased (s ! (i - 1))) then to_lower_full (s ! i)
           else to_title_full (s ! i)))"
proof (induction s arbitrary: p)
  case Nil
  then show ?case by simp
next
  case (Cons c cs)
  then have c: "c < 128" and cs: "is_ascii cs" by simp_all
  obtain l where l: "to_lower_full c = [l]" using c by (rule ascii_lower)
  obtain t where t: "to_title_full c = [t]" using c by (rule ascii_title)
  note IH = Cons.IH [OF cs, of "is_cased c"]
  have len: "length (do_title p (c # cs)) = length (c # cs)"
    using IH l t by simp
  have "[do_title p (c # cs) ! i] =
          (if (if i = 0 then p else is_cased ((c # cs) ! (i - 1))) then to_lower_full ((c # cs) ! i)
           else to_title_full ((c # cs) ! i))" if "i < length (c # cs)" for i
  proof (cases i)
    case 0
    then show ?thesis using l t by simp
  next
    case (Suc j)
    with that have j: "j < length cs" by simp
    have "do_title p (c # cs) ! i = do_title (is_cased c) cs ! j"
      using Suc l t by simp
    moreover have "(if j = 0 then is_cased c else is_cased (cs ! (j - 1))) = is_cased ((c # cs) ! j)"
      by (cases j) simp_all
    ultimately show ?thesis using IH j Suc by simp
  qed
  with len show ?case by blast
qed


section \<open>First maximum\<close>

lemma first_max_props:
  "sorted (map fst (b # xs)) \<Longrightarrow> distinct (map fst (b # xs)) \<Longrightarrow>
   first_max b xs \<in> set (b # xs)
   \<and> (\<forall>y \<in> set (b # xs). sint (snd y) \<le> sint (snd (first_max b xs)))
   \<and> (\<forall>y \<in> set (b # xs). snd y = snd (first_max b xs) \<longrightarrow> fst (first_max b xs) \<le> fst y)"
proof (induction xs arbitrary: b)
  case Nil
  then show ?case by simp
next
  case (Cons x xs)
  show ?case
  proof (cases "sint (snd b) < sint (snd x)")
    case True
    from Cons.prems have "sorted (map fst (x # xs))" "distinct (map fst (x # xs))" by simp_all
    from Cons.IH [OF this] True show ?thesis by force
  next
    case False
    from Cons.prems have s: "sorted (map fst (b # xs))" "distinct (map fst (b # xs))" by simp_all
    from Cons.prems have bx: "fst b \<le> fst x" by simp
    note IH = Cons.IH [OF s]
    let ?m = "first_max b xs"
    from False have eq: "first_max b (x # xs) = ?m" by simp
    have "sint (snd x) \<le> sint (snd ?m)" using IH False by fastforce
    moreover have "fst ?m \<le> fst x" if "snd x = snd ?m"
    proof -
      have "sint (snd b) \<le> sint (snd ?m)" using IH by simp
      with that False have "sint (snd b) = sint (snd ?m)" by simp
      then have "snd b = snd ?m" by (rule signed_word_eqI)
      then have "fst ?m \<le> fst b" using IH by simp
      with bx show ?thesis by simp
    qed
    ultimately show ?thesis using IH eq by auto
  qed
qed

lemma first_max_groupby_sum:
  assumes "df \<noteq> []"
  shows "\<exists>s. most_affected_state df = Inr s \<and> s \<in> State ` set df
     \<and> (\<forall>s' \<in> State ` set df.
           sint (sum_list (group_totals State df s')) \<le> sint (sum_list (group_totals State df s))
         \<and> (sum_list (group_totals State df s') = sum_list (group_totals State df s) \<longrightarrow> s \<le> s'))"
proof -
  let ?g = "groupby_sum State df"
  from assms have "set (map fst ?g) \<noteq> {}"
    by (simp add: groupby_sum_keys groupby_keys_props)
  then obtain b xs where g: "?g = b # xs" by (cases ?g) auto
  let ?m = "first_max b xs"
  have "sorted (map fst (b # xs))" "distinct (map fst (b # xs))"
    using groupby_keys_props(1,2) [of State df] groupby_sum_keys [of State df] g by simp_all
  note P = first_max_props [OF this]
  have res: "most_affected_state df = Inr (fst ?m)"
    by (simp add: most_affected_state_def idxmax_def g)
  from P have "?m \<in> set ?g" by (simp add: g)
  then have m: "fst ?m \<in> State ` set df" "snd ?m = sum_list (group_totals State df (fst ?m))"
    using groupby_sum_mem [of "fst ?m" "snd ?m" State df] by simp_all
  have "sint (sum_list (group_totals State df s')) \<le> sint (sum_list (group_totals State df (fst ?m)))
      \<and> (sum_list (group_totals State df s') = sum_list (group_totals State df (fst ?m)) \<longrightarrow> fst ?m \<le> s')"
    if "s' \<in> State ` set df" for s'
  proof -
    from that have "(s', sum_list (group_totals State df s')) \<in> set (b # xs)"
      using groupby_sum_mem [of s' _ State df] g by simp
    with P m(2) show ?thesis by fastforce
  qed
  with res m(1) show ?thesis by blast
qed

section \<open>Replacement by a dictionary\<close>

lemma replace_fold:
  "fold (\<lambda>(k, v) acc. map2 (\<lambda>orig cur. if orig = k then v else cur) col acc) d (map h col)
   = map (\<lambda>s. case map_of (rev d) s of Some v \<Rightarrow> v | None \<Rightarrow> h s) col"
proof (induction d arbitrary: h)
  case Nil
  then show ?case by simp
next
  case (Cons kv d)
  obtain k v where kv: "kv = (k, v)" by (cases kv)
  have step: "map2 (\<lambda>orig cur. if orig = k then v else cur) col (map h col)
      = map (\<lambda>s. if s = k then v else h s) col"
    by (induction col) simp_all
  show ?case
    by (simp add: kv step Cons.IH map_add_def split: option.splits)
qed

lemma replace_values_lookup:
  assumes "distinct (map fst d)"
  shows "replace_values d col = map (\<lambda>s. case map_of d s of Some v \<Rightarrow> v | None \<Rightarrow> s) col"
proof -
  have "map_of (rev d) = map_of d"
    using assms map_of_inject_set [of "rev d" d] by (simp add: rev_map [symmetric])
  with replace_fold [of col d "\<lambda>s. s"] show ?thesis
    by (simp add: replace_values_def)
qed

lemma distinct_mapping_keys: "distinct (map fst state_name_mapping)"
  by (simp add: state_name_mapping_def py_str_def)

section \<open>Claims\<close>

subsection \<open>C1: average annual cases\<close>

text \<open>
  C1. The claim: on a non-empty filtered table the "Avg Annual Cases" statistic is the
  mean of the per-year sums of Total. Line 153 takes \<^verbatim>\<open>.mean()\<close> within each year and
  then the mean of those means. On the three-row table \<^const>\<open>ex_years\<close> (2019: 10 and
  20; 2020: 30) the per-year sums are 30 and 30, whose mean is 30, while the code
  computes the mean of 15 and 30.
\<close>

theorem avg_annual_cases_example:
  "avg_annual_cases ex_years = Num (45 / 2) \<and> spec_avg_annual_cases ex_years = Num 30"
  by code_simp

subsection \<open>C2: statistics of an empty filtered table\<close>

text \<open>
  C2, as stated, asks that no statistic raises on an empty filtered table. On
  \<^const>\<open>ex_years\<close> the widgets allow the selection \<^const>\<open>ex_spec_no_gender\<close>
  (everything selected but no gender); it leaves no row, and the most-affected-state
  lookup raises ValueError there.
\<close>

theorem most_affected_state_empty_raises:
  "widget_state ex_years ex_spec_no_gender
   \<and> filtered_df ex_spec_no_gender ex_years = []
   \<and> most_affected_state (filtered_df ex_spec_no_gender ex_years) = Inl ValueError"
  by code_simp

text \<open>
  C2, amended: whenever the filter leaves no row, the total is 0 and the average annual
  cases evaluate to NaN, both without raising, and the most-affected-state lookup raises
  ValueError. That exception ends the run after the first two statistics were rendered:
  the male percentage and the views are not computed.
\<close>

theorem empty_filter_statistics:
  assumes "filtered_df sp df = []"
  shows "total_cases (filtered_df sp df) = 0
       \<and> avg_annual_cases (filtered_df sp df) = NaN
       \<and> most_affected_state (filtered_df sp df) = Inl ValueError
       \<and> dashboard_run (filtered_df sp df)
           = ([Total_Cases 0, Avg_Annual_Cases NaN], Some ValueError)"
  by (simp add: assms total_cases_def avg_annual_cases_def most_affected_state_def
      dashboard_run_def groupby_mean_def groupby_sum_def groupby_keys_def series_mean_float_def
      idxmax_def)

text \<open>
  C2, amended, on \<^const>\<open>ex_years\<close> at the selection of Kerala rows of the year 2019
  with the gender Female, which the widgets allow and no row satisfies; with everything
  selected the run renders all its outputs and ends without an exception.
\<close>

theorem empty_filter_statistics_witness:
  "widget_state ex_years ex_spec_kerala_female
   \<and> filtered_df ex_spec_kerala_female ex_years = []
   \<and> total_cases (filtered_df ex_spec_kerala_female ex_years) = 0
   \<and> avg_annual_cases (filtered_df ex_spec_kerala_female ex_years) = NaN
   \<and> most_affected_state (filtered_df ex_spec_kerala_female ex_years) = Inl ValueError
   \<and> dashboard_run (filtered_df ex_spec_kerala_female ex_years)
       = ([Total_Cases 0, Avg_Annual_Cases NaN], Some ValueError)
   \<and> dashboard_run (filtered_df ex_spec_all ex_years)
       = ([Total_Cases 60, Avg_Annual_Cases (Num (45 / 2)),
           Most_Affected_State (py_str ''Kerala''), Gender_Ratio (Num (200 / 3)),
           Yearly_Trend [(2019, 30), (2020, 30)],
           State_Heatmap [(py_str ''Assam'', 20), (py_str ''Kerala'', 40)]], None)"
proof -
  have w: "widget_state ex_years ex_spec_kerala_female" by code_simp
  have e: "filtered_df ex_spec_kerala_female ex_years = []" by code_simp
  have f: "dashboard_run (filtered_df ex_spec_all ex_years)
       = ([Total_Cases 60, Avg_Annual_Cases (Num (45 / 2)),
           Most_Affected_State (py_str ''Kerala''), Gender_Ratio (Num (200 / 3)),
           Yearly_Trend [(2019, 30), (2020, 30)],
           State_Heatmap [(py_str ''Assam'', 20), (py_str ''Kerala'', 40)]], None)"
    by code_simp
  from w e f empty_filter_statistics [OF e] show ?thesis by (simp only: simp_thms)
qed

subsection \<open>C3: the filter\<close>

text \<open>
  C3. The filtered table consists of exactly the rows, in their order, for which all five
  conditions hold: State among the selected states, Year between the two ends of the
  year range (both included), Type among the selected types, Gender among the selected
  genders, Age_group among the selected age groups. If one of the four selections is
  empty, the filtered table is empty.
\<close>

theorem filtered_df_retains_iff:
  "filtered_df sp df =
     filter (\<lambda>r. State r \<in> set (selected_states sp)
                \<and> fst (selected_years sp) \<le> Year r \<and> Year r \<le> snd (selected_years sp)
                \<and> Type r \<in> set (selected_type sp)
                \<and> Gender r \<in> set (selected_gender sp)
                \<and> Age_group r \<in> set (selected_age_group sp)) df
   \<and> (\<forall>r. r \<in> set (filtered_df sp df) \<longleftrightarrow>
          r \<in> set df
          \<and> State r \<in> set (selected_states sp)
          \<and> fst (selected_years sp) \<le> Year r \<and> Year r \<le> snd (selected_years sp)
          \<and> Type r \<in> set (selected_type sp)
          \<and> Gender r \<in> set (selected_gender sp)
          \<and> Age_group r \<in> set (selected_age_group sp))
   \<and> (selected_states sp = [] \<or> selected_type sp = [] \<or> selected_gender sp = []
        \<or> selected_age_group sp = [] \<longrightarrow> filtered_df sp df = [])"
  by (auto simp add: filtered_df_def isin_map between_map mask_and_map select_rows_map)

text \<open>
  C3 on \<^const>\<open>ex_years\<close>: no gender selected gives no row, everything selected
  gives the table, and the year range 2020 to 2020 gives its third row.
\<close>

theorem filtered_df_retains_iff_witness:
  "selected_gender ex_spec_no_gender = [] \<and> ex_years \<noteq> []
   \<and> filtered_df ex_spec_no_gender ex_years = []
   \<and> filtered_df ex_spec_all ex_years = ex_years
   \<and> filtered_df (ex_spec_all\<lparr>selected_years := (2020, 2020)\<rparr>) ex_years = [ex_years ! 2]"
proof -
  have g: "selected_gender ex_spec_no_gender = []"
    by (simp add: ex_spec_no_gender_def ex_spec_all_def)
  have n: "ex_years \<noteq> []" by (simp add: ex_years_def)
  from filtered_df_retains_iff [of ex_spec_no_gender ex_years] g
  have e: "filtered_df ex_spec_no_gender ex_years = []" by blast
  have a: "filtered_df ex_spec_all ex_years = ex_years" by code_simp
  have y: "filtered_df (ex_spec_all\<lparr>selected_years := (2020, 2020)\<rparr>) ex_years = [ex_years ! 2]"
    by code_simp
  from g n e a y show ?thesis by (simp only: simp_thms)
qed

subsection \<open>C4: reserved total rows\<close>




subsection \<open>C5: text normalisation\<close>

text \<open>
  C5, as stated, has the three text columns trimmed and then title-cased. On
  \<^const>\<open>ex_padded\<close>, whose two rows have the genders " male" and "male", the Gender
  column of the loaded table is not the trimmed and title-cased one: the leading space
  stays.
\<close>

theorem load_data_keeps_whitespace:
  "map Gender (load_data ex_padded) \<noteq> map (\<lambda>r. spec_normalize_text (Gender r)) ex_padded
   \<and> map Gender (load_data ex_padded) = [py_str '' Male'', py_str ''Male'']"
  by code_simp

text \<open>
  C5, amended: \<^const>\<open>load_data\<close> replaces State, Type and Gender of every retained row by
  their title-cased text and trims nothing. On ASCII text, title-casing keeps the length,
  puts a character that follows a letter in lower case and any other character in title
  (upper) case, so that two ASCII values that differ only in case become equal.
\<close>

theorem load_data_title_cases:
  "load_data df =
     map (\<lambda>r. r\<lparr>State := str_title (State r), Type := str_title (Type r),
                Gender := str_title (Gender r)\<rparr>)
       (filter (\<lambda>r. str_title (State r) \<notin> set states_to_remove) df)
   \<and> (is_ascii s \<longrightarrow>
        length (str_title s) = length s
        \<and> (\<forall>i < length s. [str_title s ! i] =
              (if 0 < i \<and> is_cased (s ! (i - 1)) then to_lower_full (s ! i)
               else to_title_full (s ! i))))
   \<and> (is_ascii x \<and> is_ascii y \<and> str_lower x = str_lower y \<longrightarrow> str_title x = str_title y)"
proof -
  have "length (str_title s) = length s
        \<and> (\<forall>i < length s. [str_title s ! i] =
              (if 0 < i \<and> is_cased (s ! (i - 1)) then to_lower_full (s ! i)
               else to_title_full (s ! i)))" if "is_ascii s"
    using do_title_nth [OF that, of False] by (simp add: str_title_def)
  moreover have "str_title x = str_title y"
    if "is_ascii x \<and> is_ascii y \<and> str_lower x = str_lower y"
    using that do_title_case_insensitive [of x y False] by (simp add: str_title_def)
  ultimately show ?thesis using load_data_eq [of df] by blast
qed

text \<open>C5, amended, at the genders "male" and "MALE" and the state "kerala".\<close>

theorem load_data_title_cases_witness:
  "is_ascii (py_str ''male'') \<and> is_ascii (py_str ''MALE'')
   \<and> str_lower (py_str ''male'') = str_lower (py_str ''MALE'')
   \<and> str_title (py_str ''male'') = str_title (py_str ''MALE'')
   \<and> is_ascii (py_str ''kerala'') \<and> length (str_title (py_str ''kerala'')) = 6
   \<and> (0::nat) < length (py_str ''kerala'')
   \<and> [str_title (py_str ''kerala'') ! 0] = [75]"
proof -
  have a: "is_ascii (py_str ''male'')" "is_ascii (py_str ''MALE'')"
    "str_lower (py_str ''male'') = str_lower (py_str ''MALE'')"
    by code_simp+
  have k: "is_ascii (py_str ''kerala'')" by code_simp
  have n: "length (py_str ''kerala'') = 6" by (simp add: py_str_def)
  have t0: "to_title_full (py_str ''kerala'' ! 0) = [75]" by code_simp
  note T = load_data_title_cases [of "[]" "py_str ''kerala''" "py_str ''male''" "py_str ''MALE''"]
  from T a have e: "str_title (py_str ''male'') = str_title (py_str ''MALE'')" by blast
  from T k have l: "length (str_title (py_str ''kerala'')) = length (py_str ''kerala'')"
    and f: "\<forall>i < length (py_str ''kerala''). [str_title (py_str ''kerala'') ! i] =
              (if 0 < i \<and> is_cased (py_str ''kerala'' ! (i - 1))
               then to_lower_full (py_str ''kerala'' ! i)
               else to_title_full (py_str ''kerala'' ! i))"
    by blast+
  from f n have "[str_title (py_str ''kerala'') ! 0] = to_title_full (py_str ''kerala'' ! 0)"
    by simp
  with t0 have h: "[str_title (py_str ''kerala'') ! 0] = [75]" by simp
  from a e k l n h show ?thesis by simp
qed

subsection \<open>C6: most affected state\<close>

text \<open>
  C6. On a non-empty filtered table the most-affected-state lookup returns a State of the
  table for which the sum of the Total of its rows (a signed 64-bit sum) is largest, and
  among the States with that same sum it returns the least one in the order of Python
  strings.
\<close>

theorem most_affected_state_max:
  assumes "df \<noteq> []"
  shows "\<exists>s. most_affected_state df = Inr s \<and> s \<in> State ` set df
     \<and> (\<forall>s' \<in> State ` set df.
           sint (sum_list (map Total (filter (\<lambda>r. State r = s') df)))
             \<le> sint (sum_list (map Total (filter (\<lambda>r. State r = s) df)))
         \<and> (sum_list (map Total (filter (\<lambda>r. State r = s') df))
              = sum_list (map Total (filter (\<lambda>r. State r = s) df)) \<longrightarrow> s \<le> s'))"
  using first_max_groupby_sum [OF assms] by (simp add: group_totals_def)

text \<open>
  C6 on \<^const>\<open>ex_tie\<close>, whose States in ascending order are Assam with the sum 3,
  Bihar with 10 and Kerala with 6 + 4 = 10: the lookup returns Bihar.
\<close>

theorem most_affected_state_max_witness:
  "ex_tie \<noteq> []
   \<and> map fst (groupby_sum State ex_tie) = [py_str ''Assam'', py_str ''Bihar'', py_str ''Kerala'']
   \<and> most_affected_state ex_tie = Inr (py_str ''Bihar'')
   \<and> sum_list (map Total (filter (\<lambda>r. State r = py_str ''Kerala'') ex_tie)) = 10
   \<and> sum_list (map Total (filter (\<lambda>r. State r = py_str ''Bihar'') ex_tie)) = 10
   \<and> sum_list (map Total (filter (\<lambda>r. State r = py_str ''Assam'') ex_tie)) = 3
   \<and> (\<exists>s. most_affected_state ex_tie = Inr s \<and> s \<le> py_str ''Kerala''
          \<and> sint (sum_list (map Total (filter (\<lambda>r. State r = py_str ''Assam'') ex_tie)))
              \<le> sint (sum_list (map Total (filter (\<lambda>r. State r = s) ex_tie))))"
proof -
  have n: "ex_tie \<noteq> []" by (simp add: ex_tie_def)
  have g: "map fst (groupby_sum State ex_tie)
      = [py_str ''Assam'', py_str ''Bihar'', py_str ''Kerala'']" by code_simp
  have r: "most_affected_state ex_tie = Inr (py_str ''Bihar'')" by code_simp
  have tk: "sum_list (map Total (filter (\<lambda>r. State r = py_str ''Kerala'') ex_tie)) = 10"
    by code_simp
  have tb: "sum_list (map Total (filter (\<lambda>r. State r = py_str ''Bihar'') ex_tie)) = 10"
    by code_simp
  have ta: "sum_list (map Total (filter (\<lambda>r. State r = py_str ''Assam'') ex_tie)) = 3"
    by code_simp
  have k: "py_str ''Kerala'' \<in> State ` set ex_tie" "py_str ''Assam'' \<in> State ` set ex_tie"
    by (simp_all add: ex_tie_def mk_row_def)
  from most_affected_state_max [OF n] obtain s where
    s: "most_affected_state ex_tie = Inr s"
    and le: "\<forall>s' \<in> State ` set ex_tie.
           sint (sum_list (map Total (filter (\<lambda>r. State r = s') ex_tie)))
             \<le> sint (sum_list (map Total (filter (\<lambda>r. State r = s) ex_tie)))
         \<and> (sum_list (map Total (filter (\<lambda>r. State r = s') ex_tie))
              = sum_list (map Total (filter (\<lambda>r. State r = s) ex_tie)) \<longrightarrow> s \<le> s')"
    by blast
  from s r have sb: "s = py_str ''Bihar''" by simp
  have eq: "sum_list (map Total (filter (\<lambda>r. State r = py_str ''Kerala'') ex_tie))
      = sum_list (map Total (filter (\<lambda>r. State r = s) ex_tie))"
    using tk tb sb by simp
  from le k(1)
  have "sum_list (map Total (filter (\<lambda>r. State r = py_str ''Kerala'') ex_tie))
      = sum_list (map Total (filter (\<lambda>r. State r = s) ex_tie)) \<longrightarrow> s \<le> py_str ''Kerala''"
    by blast
  with eq have "s \<le> py_str ''Kerala''" by blast
  moreover from le k(2)
  have "sint (sum_list (map Total (filter (\<lambda>r. State r = py_str ''Assam'') ex_tie)))
          \<le> sint (sum_list (map Total (filter (\<lambda>r. State r = s) ex_tie)))" by blast
  ultimately have "\<exists>s. most_affected_state ex_tie = Inr s \<and> s \<le> py_str ''Kerala''
          \<and> sint (sum_list (map Total (filter (\<lambda>r. State r = py_str ''Assam'') ex_tie)))
              \<le> sint (sum_list (map Total (filter (\<lambda>r. State r = s) ex_tie)))"
    using s by blast
  with n g r tk tb ta show ?thesis by (simp only: simp_thms)
qed

subsection \<open>C7: loading twice\<close>

text \<open>
  C7, as stated, says that loading a loaded table changes nothing, for every table. The
  State of the one row of \<^const>\<open>ex_dotted\<close> is "a", U+0130, "b". Title-casing gives
  "A", "i", U+0307, "b": the "b" follows the cased U+0130 and is lowered. Title-casing
  again gives "A", "i", U+0307, "B": the "b" now follows the caseless U+0307.
\<close>

theorem load_data_not_idempotent:
  "load_data (load_data ex_dotted) \<noteq> load_data ex_dotted
   \<and> map State (load_data ex_dotted) = [[65, 105, 775, 98]]
   \<and> map State (load_data (load_data ex_dotted)) = [[65, 105, 775, 66]]"
  by code_simp

text \<open>
  C7, amended: on every table whose State, Type and Gender cells are ASCII text, loading
  the loaded table gives the loaded table.
\<close>

theorem load_data_idempotent_ascii:
  assumes "\<forall>r \<in> set df. is_ascii (State r) \<and> is_ascii (Type r) \<and> is_ascii (Gender r)"
  shows "load_data (load_data df) = load_data df"
proof -
  let ?K = "\<lambda>r. str_title (State r) \<notin> set states_to_remove"
  let ?T = "\<lambda>r. r\<lparr>State := str_title (State r), Type := str_title (Type r),
                Gender := str_title (Gender r)\<rparr>"
  have "load_data (load_data df) = map ?T (filter ?K (map ?T (filter ?K df)))"
    by (simp only: load_data_eq)
  also have "\<dots> = map (?T \<circ> ?T) (filter (?K \<circ> ?T) (filter ?K df))"
    by (simp add: filter_map)
  also have "filter (?K \<circ> ?T) (filter ?K df) = filter ?K df"
    using assms by (induction df) (simp_all add: str_title_idem)
  also have "map (?T \<circ> ?T) (filter ?K df) = map ?T (filter ?K df)"
    using assms by (induction df) (simp_all add: str_title_idem)
  finally show ?thesis by (simp add: load_data_eq)
qed

text \<open>C7, amended, on the three-row table \<^const>\<open>ex_raw\<close>, which loads to two rows.\<close>

theorem load_data_idempotent_ascii_witness:
  "list_all (\<lambda>r. is_ascii (State r) \<and> is_ascii (Type r) \<and> is_ascii (Gender r)) ex_raw
   \<and> length (load_data ex_raw) = 2
   \<and> load_data (load_data ex_raw) = load_data ex_raw"
proof -
  have a: "list_all (\<lambda>r. is_ascii (State r) \<and> is_ascii (Type r) \<and> is_ascii (Gender r)) ex_raw"
    by (simp add: ex_raw_def mk_row_def py_str_def)
  then have b: "\<forall>r \<in> set ex_raw. is_ascii (State r) \<and> is_ascii (Type r) \<and> is_ascii (Gender r)"
    by (simp only: list_all_iff)
  have l: "length (load_data ex_raw) = 2" by code_simp
  from a l load_data_idempotent_ascii [OF b] show ?thesis by (simp only: simp_thms)
qed

subsection \<open>C8: the yearly sums add up to the total\<close>

text \<open>
  C8. The Total column of the by-Year view (line 167) sums to the sum of the Total
  column of the whole filtered table (line 151); both sums are 64-bit and wrap alike.
\<close>

theorem yearly_data_conservative:
  "sum_list (map snd (yearly_data df)) = total_cases df"
  using group_sum_partition [of "groupby_keys Year df" Year df Total]
  by (simp add: yearly_data_def groupby_sum_def total_cases_def group_totals_def
      groupby_keys_def o_def)

text \<open>C8 on \<^const>\<open>ex_years\<close>: the view has the rows (2019, 30) and (2020, 30).\<close>

theorem yearly_data_conservative_witness:
  "yearly_data ex_years = [(2019, 30), (2020, 30)]
   \<and> total_cases ex_years = 60
   \<and> sum_list (map snd (yearly_data ex_years)) = total_cases ex_years"
proof -
  have y: "yearly_data ex_years = [(2019, 30), (2020, 30)]" by code_simp
  have t: "total_cases ex_years = 60" by code_simp
  from y t yearly_data_conservative [of ex_years] show ?thesis by (simp only: simp_thms)
qed

subsection \<open>C9: state names for the map\<close>

text \<open>
  C9. In the map view every State of the by-State aggregate that is a key of the mapping
  table is replaced by the key's value and every other State is left as it is, while the
  sums stay in place; "Odisha" is mapped to "Orissa", "Uttarakhand" to "Uttaranchal", and
  "Kerala" is not a key.
\<close>

theorem map_data_lookup:
  "map fst (map_data df) =
     map (\<lambda>s. case map_of state_name_mapping s of Some v \<Rightarrow> v | None \<Rightarrow> s)
       (map fst (groupby_sum State df))
   \<and> map snd (map_data df) = map snd (groupby_sum State df)
   \<and> map_of state_name_mapping (py_str ''Odisha'') = Some (py_str ''Orissa'')
   \<and> map_of state_name_mapping (py_str ''Uttarakhand'') = Some (py_str ''Uttaranchal'')
   \<and> map_of state_name_mapping (py_str ''Kerala'') = None"
proof -
  let ?g = "groupby_sum State df"
  let ?look = "\<lambda>s. case map_of state_name_mapping s of Some v \<Rightarrow> v | None \<Rightarrow> s"
  have r: "replace_values state_name_mapping (map fst ?g) = map ?look (map fst ?g)"
    by (rule replace_values_lookup [OF distinct_mapping_keys])
  have "map fst (map_data df) = map ?look (map fst ?g)"
    by (simp add: map_data_def Let_def r)
  moreover have "map snd (map_data df) = map snd ?g"
    by (simp add: map_data_def Let_def r)
  moreover have "map_of state_name_mapping (py_str ''Odisha'') = Some (py_str ''Orissa'')"
    by code_simp
  moreover have "map_of state_name_mapping (py_str ''Uttarakhand'') = Some (py_str ''Uttaranchal'')"
    by code_simp
  moreover have "map_of state_name_mapping (py_str ''Kerala'') = None"
    by code_simp
  ultimately show ?thesis by blast
qed

text \<open>C9 on \<^const>\<open>ex_geo\<close>, with the States Kerala, Odisha and Uttarakhand.\<close>

theorem map_data_lookup_witness:
  "map fst (groupby_sum State ex_geo) = [py_str ''Kerala'', py_str ''Odisha'', py_str ''Uttarakhand'']
   \<and> map fst (map_data ex_geo) = [py_str ''Kerala'', py_str ''Orissa'', py_str ''Uttaranchal'']
   \<and> map snd (map_data ex_geo) = [3, 10, 10]"
proof -
  have g: "map fst (groupby_sum State ex_geo)
      = [py_str ''Kerala'', py_str ''Odisha'', py_str ''Uttarakhand'']" by code_simp
  have v: "map snd (groupby_sum State ex_geo) = [3, 10, 10]" by code_simp
  note L = map_data_lookup [of ex_geo]
  from L g have "map fst (map_data ex_geo) =
     map (\<lambda>s. case map_of state_name_mapping s of Some v \<Rightarrow> v | None \<Rightarrow> s)
       [py_str ''Kerala'', py_str ''Odisha'', py_str ''Uttarakhand'']" by simp
  with L have f: "map fst (map_data ex_geo)
      = [py_str ''Kerala'', py_str ''Orissa'', py_str ''Uttaranchal'']" by simp
  from L v have s: "map snd (map_data ex_geo) = [3, 10, 10]" by simp
  from g f s show ?thesis by (simp only: simp_thms)
qed

subsection \<open>C10: what loading leaves alone\<close>

text \<open>
  C10. The rows of the loaded table are the input rows whose title-cased State is not a
  reserved label, in input order, and their Age_group, Year and Total are the input's,
  unchanged: Age_group is neither trimmed nor title-cased, so grouping the loaded table
  by Age_group has the group keys of those input rows.
\<close>

theorem load_data_frame:
  "map (\<lambda>r. (Age_group r, Year r, Total r)) (load_data df) =
   map (\<lambda>r. (Age_group r, Year r, Total r))
     (filter (\<lambda>r. str_title (State r) \<notin> set states_to_remove) df)
   \<and> groupby_keys Age_group (load_data df) =
       groupby_keys Age_group (filter (\<lambda>r. str_title (State r) \<notin> set states_to_remove) df)"
  by (simp add: load_data_eq groupby_keys_def o_def)

text \<open>
  C10 on \<^const>\<open>ex_ages\<close>: the age groups "adult" and "Adult" of the two retained rows
  stay different.
\<close>

theorem load_data_frame_witness:
  "filter (\<lambda>r. str_title (State r) \<notin> set states_to_remove) ex_ages = [ex_ages ! 0, ex_ages ! 2]
   \<and> map (\<lambda>r. (Age_group r, Year r, Total r)) (load_data ex_ages)
       = [(py_str ''adult'', 2019, 10), (py_str ''Adult'', 2018, 7)]
   \<and> py_str ''adult'' \<noteq> py_str ''Adult''
   \<and> groupby_keys Age_group (load_data ex_ages) = [py_str ''Adult'', py_str ''adult'']"
proof -
  have f: "filter (\<lambda>r. str_title (State r) \<notin> set states_to_remove) ex_ages
      = [ex_ages ! 0, ex_ages ! 2]" by code_simp
  have e: "map (\<lambda>r. (Age_group r, Year r, Total r)) [ex_ages ! 0, ex_ages ! 2]
      = [(py_str ''adult'', 2019, 10), (py_str ''Adult'', 2018, 7)]" by code_simp
  have d: "py_str ''adult'' \<noteq> py_str ''Adult''" by code_simp
  have k: "groupby_keys Age_group [ex_ages ! 0, ex_ages ! 2] = [py_str ''Adult'', py_str ''adult'']"
    by code_simp
  note L = load_data_frame [of ex_ages]
  from L f e
  have m: "map (\<lambda>r. (Age_group r, Year r, Total r)) (load_data ex_ages)
       = [(py_str ''adult'', 2019, 10), (py_str ''Adult'', 2018, 7)]" by simp
  from L f k
  have g: "groupby_keys Age_group (load_data ex_ages) = [py_str ''Adult'', py_str ''adult'']"
    by simp
  from f m d g show ?thesis by (simp only: simp_thms)
qed

end
